theory Spec2Isabelle
  imports Complex_Main "HOL-Library.Log_Nat" "HOL-Library.Sublist"
begin

section \<open>The Kapsis status library (scripts/lib/status.py)\<close>

text \<open>
  A shallow embedding of \<^verbatim>\<open>KapsisStatus\<close>: the tool classifier, the progress estimator
  and the status publisher. Python strings are lists of characters, each character a code
  point below 256; Python's unbounded \<^verbatim>\<open>int\<close> is \<^typ>\<open>int\<close>, a counter that only ever
  counts up from zero is \<^typ>\<open>nat\<close>; a Python \<^verbatim>\<open>float\<close> is the rational number it
  denotes, with every arithmetic operation rounded to the nearest double. The file system,
  the clock and the standard output are an explicit \<open>world\<close> that every operation takes
  and returns; an exception is a value.
\<close>

subsection \<open>Strings\<close>

text \<open>\<^verbatim>\<open>str.lower()\<close> on the code points below 256: A-Z and the accented capitals
  U+00C0..U+00DE (without the multiplication sign U+00D7) move up by 32.\<close>

definition lower_char :: "char \<Rightarrow> char" where
  "lower_char c =
     (let n = (of_char c :: nat)
      in if (65 \<le> n \<and> n \<le> 90) \<or> (192 \<le> n \<and> n \<le> 222 \<and> n \<noteq> 215)
         then char_of (n + 32) else c)"

definition str_lower :: "string \<Rightarrow> string" where
  "str_lower s = map lower_char s"

text \<open>\<^verbatim>\<open>sub in s\<close> for strings: \<open>sub\<close> occurs in \<open>s\<close> as a contiguous block.\<close>

fun contains :: "string \<Rightarrow> string \<Rightarrow> bool" where
  "contains sub [] = (sub = [])"
| "contains sub (c # cs) = (prefix sub (c # cs) \<or> contains sub cs)"

text \<open>\<^verbatim>\<open>sep.join(xs)\<close>\<close>

fun join :: "string \<Rightarrow> string list \<Rightarrow> string" where
  "join sep [] = []"
| "join sep [x] = x"
| "join sep (x # y # ys) = x @ sep @ join sep (y # ys)"

text \<open>\<^verbatim>\<open>str(i)\<close> for an integer: decimal digits, a minus sign when negative.\<close>

fun nat_digits :: "nat \<Rightarrow> string" where
  "nat_digits n =
     (if n < 10 then [''0123456789'' ! n]
      else nat_digits (n div 10) @ [''0123456789'' ! (n mod 10)])"

definition str_int :: "int \<Rightarrow> string" where
  "str_int i = (if i < 0 then ''-'' @ nat_digits (nat (- i)) else nat_digits (nat i))"

subsection \<open>Double-precision arithmetic\<close>

text \<open>
  A finite double is a rational \<open>m * 2 ^ k\<close> with \<open>\<bar>m\<bar> < 2 ^ 53\<close>. Each operation of the
  source (\<^verbatim>\<open>+\<close>, \<^verbatim>\<open>*\<close>, \<^verbatim>\<open>/\<close>, a decimal literal) returns the exact result rounded to the
  nearest such number, ties to the even significand. \<open>binade x\<close> is the exponent \<open>e\<close>
  with \<open>2 ^ e \<le> x < 2 ^ (e + 1)\<close>. The exponent range of the format is left out: every
  value the estimator computes lies between \<open>2 ^ (-7)\<close> and \<open>90\<close>, or is zero.
\<close>

definition round_half_even :: "rat \<Rightarrow> int" where
  "round_half_even q =
     (let n = \<lfloor>q\<rfloor>; r = q - of_int n
      in if r < 1/2 then n else if 1/2 < r then n + 1 else if even n then n else n + 1)"

definition binade :: "rat \<Rightarrow> int" where
  "binade x =
     (let (p, q) = quotient_of x; e0 = bitlen p - bitlen q
      in if 2 powi e0 \<le> x then e0 else e0 - 1)"

definition rnd :: "rat \<Rightarrow> rat" where
  "rnd x =
     (if x = 0 then 0
      else let u = 2 powi (binade \<bar>x\<bar> - 52)
           in sgn x * (of_int (round_half_even (\<bar>x\<bar> / u)) * u))"

definition fadd :: "rat \<Rightarrow> rat \<Rightarrow> rat" where
  "fadd x y = rnd (x + y)"

definition fmul :: "rat \<Rightarrow> rat \<Rightarrow> rat" where
  "fmul x y = rnd (x * y)"

definition fdiv :: "rat \<Rightarrow> rat \<Rightarrow> rat" where
  "fdiv x y = rnd (x / y)"

text \<open>\<^verbatim>\<open>int(x)\<close> of a float: truncation towards zero.\<close>

definition int_of_float :: "rat \<Rightarrow> int" where
  "int_of_float x = (if 0 \<le> x then \<lfloor>x\<rfloor> else \<lceil>x\<rceil>)"

subsection \<open>Tool classifier\<close>

definition build_tokens :: "string list" where
  "build_tokens = [''mvn'', ''maven'', ''gradle'', ''npm'', ''yarn'', ''cargo'', ''make'', ''go build'']"

definition test_tokens :: "string list" where
  "test_tokens = [''test'', ''pytest'', ''jest'', ''mocha'', ''rspec'', ''cargo test'']"

definition map_tool_to_category :: "string \<Rightarrow> string \<Rightarrow> string" where
  "map_tool_to_category tool_name command =
     (let tool_lower = str_lower tool_name
      in if tool_lower \<in> set [''read'', ''grep'', ''glob'', ''search'', ''find''] then ''explore''
         else if tool_lower \<in> set [''write'', ''edit'', ''notebookedit''] then ''implement''
         else if tool_lower = ''bash'' then
           (let cmd_lower = str_lower command
            in if list_ex (\<lambda>b. contains b cmd_lower) build_tokens then ''build''
               else if list_ex (\<lambda>t. contains t cmd_lower) test_tokens then ''test''
               else if contains ''git commit'' cmd_lower then ''commit''
               else ''implement'')
         else ''implement'')"

subsection \<open>Progress estimator\<close>

text \<open>
  \<^verbatim>\<open>self.tool_counts\<close> is a dict created with the five keys below, in this order; no key is
  ever added or removed, and a count only grows. \<open>items\<close> lists it in insertion order,
  as \<^verbatim>\<open>dict.items()\<close> does.
\<close>

record counts =
  explore :: nat
  implement :: nat
  build :: nat
  test :: nat
  commit :: nat

definition items :: "counts \<Rightarrow> (string \<times> nat) list" where
  "items c =
     [(''explore'', explore c), (''implement'', implement c), (''build'', build c),
      (''test'', test c), (''commit'', commit c)]"

definition increment :: "string \<Rightarrow> counts \<Rightarrow> counts" where
  "increment category c =
     (if category = ''explore'' then c\<lparr>explore := explore c + 1\<rparr>
      else if category = ''implement'' then c\<lparr>implement := implement c + 1\<rparr>
      else if category = ''build'' then c\<lparr>build := build c + 1\<rparr>
      else if category = ''test'' then c\<lparr>test := test c + 1\<rparr>
      else if category = ''commit'' then c\<lparr>commit := commit c + 1\<rparr>
      else c)"

text \<open>The weights are float literals: the doubles nearest to the decimal fractions.\<close>

definition weights :: "(string \<times> rat) list" where
  "weights =
     [(''explore'', rnd (15 / 100)), (''implement'', rnd (35 / 100)), (''build'', rnd (20 / 100)),
      (''test'', rnd (20 / 100)), (''commit'', rnd (10 / 100))]"

definition weights_get :: "string \<Rightarrow> rat \<Rightarrow> rat" where
  "weights_get category dflt = (case map_of weights category of Some w \<Rightarrow> w | None \<Rightarrow> dflt)"

text \<open>The loop over \<^verbatim>\<open>self.tool_counts.items()\<close>, carrying
  \<^verbatim>\<open>(weighted_sum, weighted_total)\<close>.\<close>

fun weighted_loop :: "(string \<times> nat) list \<Rightarrow> rat \<times> rat \<Rightarrow> rat \<times> rat" where
  "weighted_loop [] acc = acc"
| "weighted_loop ((category, count) # rest) (weighted_sum, weighted_total) =
     (if count > 0 then
        (let weight = weights_get category (rnd (1 / 10));
             effective_count = min count 10
         in weighted_loop rest
              (fadd weighted_sum (fmul weight (fdiv (of_nat effective_count) 10)),
               fadd weighted_total weight))
      else weighted_loop rest (weighted_sum, weighted_total))"

definition calculate_progress :: "counts \<Rightarrow> int" where
  "calculate_progress c =
     (let total = sum_list (map snd (items c))
      in if total = 0 then 25
         else (case weighted_loop (items c) (0, 0) of
                 (weighted_sum, weighted_total) \<Rightarrow>
                   if weighted_total = 0 then 25
                   else (let raw_progress = fdiv weighted_sum weighted_total
                         in int_of_float (fadd 25 (fmul raw_progress 65)))))"

definition determine_phase :: "counts \<Rightarrow> string" where
  "determine_phase c =
     (if commit c > 0 then ''committing''
      else if test c > 0 then ''testing''
      else if build c > 0 then ''building''
      else if implement c > 0 then ''implementing''
      else ''exploring'')"




subsection \<open>Paths\<close>

text \<open>
  A \<^verbatim>\<open>pathlib\<close> POSIX path: its root (empty, one slash or two) and its components.
  Parsing a string splits it at the slashes and drops the empty components and the single
  dots; joining a string onto a path parses it and appends its components, unless the string
  is itself rooted.
\<close>

datatype path = Path (root: string) (parts: "string list")

fun split_sep :: "string \<Rightarrow> string list" where
  "split_sep [] = [[]]"
| "split_sep (c # cs) =
     (if c = CHR ''/'' then [] # split_sep cs
      else (case split_sep cs of [] \<Rightarrow> [[c]] | x # xs \<Rightarrow> (c # x) # xs))"

definition parse_root :: "string \<Rightarrow> string" where
  "parse_root s =
     (let n = length (takeWhile (\<lambda>c. c = CHR ''/'') s)
      in if n = 0 then [] else if n = 2 then ''//'' else ''/'')"

definition parse_parts :: "string \<Rightarrow> string list" where
  "parse_parts s = filter (\<lambda>x. x \<noteq> [] \<and> x \<noteq> ''.'') (split_sep s)"

definition PurePath :: "string \<Rightarrow> path" where
  "PurePath s = Path (parse_root s) (parse_parts s)"

definition joinpath :: "path \<Rightarrow> string \<Rightarrow> path" where
  "joinpath p s =
     (if parse_root s \<noteq> [] then PurePath s else Path (root p) (parts p @ parse_parts s))"

definition path_name :: "path \<Rightarrow> string" where
  "path_name p = (if parts p = [] then [] else last (parts p))"

definition path_parent :: "path \<Rightarrow> path" where
  "path_parent p = Path (root p) (butlast (parts p))"

definition path_str :: "path \<Rightarrow> string" where
  "path_str p = (if root p = [] \<and> parts p = [] then ''.'' else root p @ join ''/'' (parts p))"

text \<open>\<^verbatim>\<open>s.rfind(c)\<close>: the last index of \<open>c\<close>, or -1.\<close>

definition rfind :: "char \<Rightarrow> string \<Rightarrow> int" where
  "rfind c s =
     (if c \<in> set s then int (length s) - 1 - int (length (takeWhile (\<lambda>x. x \<noteq> c) (rev s)))
      else - 1)"

definition path_suffix :: "path \<Rightarrow> string" where
  "path_suffix p =
     (let nm = path_name p; i = rfind (CHR ''.'') nm
      in if 0 < i \<and> i < int (length nm) - 1 then drop (nat i) nm else [])"

subsection \<open>Exceptions\<close>

text \<open>
  The exception classes the engine can meet, each with its message. \<open>OSError\<close> stands
  for the class and its subclasses other than \<open>PermissionError\<close>, which the source
  names on its own; \<open>ValueError\<close> is what \<^verbatim>\<open>with_suffix\<close> raises and stands for the
  classes outside the \<open>OSError\<close> family. \<open>caught\<close> is the clause
  \<^verbatim>\<open>except (OSError, PermissionError)\<close>.
\<close>

datatype exn = OSError string | PermissionError string | ValueError string

fun caught :: "exn \<Rightarrow> bool" where
  "caught (OSError m) = True"
| "caught (PermissionError m) = True"
| "caught (ValueError m) = False"

fun exn_str :: "exn \<Rightarrow> string" where
  "exn_str (OSError m) = m"
| "exn_str (PermissionError m) = m"
| "exn_str (ValueError m) = m"

definition with_suffix :: "path \<Rightarrow> string \<Rightarrow> exn + path" where
  "with_suffix p sfx =
     (if CHR ''/'' \<in> set sfx \<or> (sfx \<noteq> [] \<and> hd sfx \<noteq> CHR ''.'') \<or> sfx = ''.''
      then Inl (ValueError ''Invalid suffix'')
      else let nm = path_name p
           in if nm = [] then Inl (ValueError ''path has an empty name'')
              else let old_suffix = path_suffix p;
                       nm' = (if old_suffix = [] then nm @ sfx
                              else take (length nm - length old_suffix) nm @ sfx)
                   in Inr (Path (root p) (butlast (parts p) @ [nm'])))"

subsection \<open>The world: file system, clock, standard output\<close>

text \<open>
  \<open>dirs\<close> are the directories that exist and \<open>files\<close> the regular files with their
  contents. The three fault fields say which error, if any, the operating system answers
  when asked to create a directory, to write a file or to rename one (permissions, a
  read-only or full device, a missing mount). A write that fails may leave the first
  \<open>k\<close> characters behind. \<open>observed\<close> records every state the file map goes through,
  the most recent first: what a reader in another process can see between two system calls.
\<close>

datatype write_outcome = WriteOk | OpenFails exn | WriteFails exn nat

record world =
  dirs :: "path set"
  files :: "path \<rightharpoonup> string"
  mkdir_fault :: "path \<Rightarrow> exn option"
  write_fault :: "path \<Rightarrow> write_outcome"
  rename_fault :: "path \<Rightarrow> path \<Rightarrow> exn option"
  utcnow :: string
  stdout :: "string list"
  observed :: "(path \<rightharpoonup> string) list"

definition py_print :: "string \<Rightarrow> world \<Rightarrow> world" where
  "py_print line w = w\<lparr>stdout := stdout w @ [line]\<rparr>"

definition set_files :: "(path \<rightharpoonup> string) \<Rightarrow> world \<Rightarrow> world" where
  "set_files f w = w\<lparr>files := f, observed := f # observed w\<rparr>"

definition ancestors :: "path \<Rightarrow> path list" where
  "ancestors p = map (\<lambda>n. Path (root p) (take n (parts p))) [0..<Suc (length (parts p))]"

text \<open>\<^verbatim>\<open>p.mkdir(parents=True, exist_ok=True)\<close>\<close>

definition mkdir :: "path \<Rightarrow> world \<Rightarrow> exn option \<times> world" where
  "mkdir p w =
     (if p \<in> dirs w then (None, w)
      else (case mkdir_fault w p of
              Some e \<Rightarrow> (Some e, w)
            | None \<Rightarrow> (None, w\<lparr>dirs := dirs w \<union> set (ancestors p)\<rparr>)))"

text \<open>\<^verbatim>\<open>p.write_text(data)\<close>: open for writing (the file is created or emptied), write,
  close. Opening fails when the directory of \<open>p\<close> does not exist.\<close>

definition write_text :: "path \<Rightarrow> string \<Rightarrow> world \<Rightarrow> exn option \<times> world" where
  "write_text p data w =
     (if path_parent p \<notin> dirs w then (Some (OSError ''No such file or directory''), w)
      else (case write_fault w p of
              OpenFails e \<Rightarrow> (Some e, w)
            | WriteFails e k \<Rightarrow>
                (let w1 = set_files ((files w)(p \<mapsto> [])) w
                 in (Some e, set_files ((files w1)(p \<mapsto> take k data)) w1))
            | WriteOk \<Rightarrow>
                (let w1 = set_files ((files w)(p \<mapsto> [])) w
                 in (None, set_files ((files w1)(p \<mapsto> data)) w1))))"

text \<open>\<^verbatim>\<open>src.rename(dst)\<close>: one step that replaces \<open>dst\<close>.\<close>

definition rename :: "path \<Rightarrow> path \<Rightarrow> world \<Rightarrow> exn option \<times> world" where
  "rename src dst w =
     (case files w src of
        None \<Rightarrow> (Some (OSError ''No such file or directory''), w)
      | Some data \<Rightarrow>
          (case rename_fault w src dst of
             Some e \<Rightarrow> (Some e, w)
           | None \<Rightarrow> (None, set_files ((files w)(src := None, dst \<mapsto> data)) w)))"

subsection \<open>JSON output\<close>

text \<open>\<^verbatim>\<open>json.dumps(d, indent=2)\<close> for a dict of strings and integers, with the default
  \<^verbatim>\<open>ensure_ascii\<close>: a member per line, indented by two spaces, in insertion order.\<close>

datatype json_value = JStr string | JInt int

definition hex_digit :: "nat \<Rightarrow> char" where
  "hex_digit n = ''0123456789abcdef'' ! n"

definition json_escape_char :: "char \<Rightarrow> string" where
  "json_escape_char c =
     (let n = (of_char c :: nat)
      in if c = CHR 0x22 then [CHR 0x5C, CHR 0x22]
         else if c = CHR 0x5C then [CHR 0x5C, CHR 0x5C]
         else if c = CHR 0x0A then [CHR 0x5C, CHR ''n'']
         else if c = CHR 0x0D then [CHR 0x5C, CHR ''r'']
         else if c = CHR 0x09 then [CHR 0x5C, CHR ''t'']
         else if c = CHR 0x08 then [CHR 0x5C, CHR ''b'']
         else if c = CHR 0x0C then [CHR 0x5C, CHR ''f'']
         else if n < 32 \<or> 126 < n
           then [CHR 0x5C, CHR ''u'', CHR ''0'', CHR ''0'', hex_digit (n div 16), hex_digit (n mod 16)]
         else [c])"

definition json_string :: "string \<Rightarrow> string" where
  "json_string s = [CHR 0x22] @ concat (map json_escape_char s) @ [CHR 0x22]"

fun json_value_str :: "json_value \<Rightarrow> string" where
  "json_value_str (JStr s) = json_string s"
| "json_value_str (JInt i) = str_int i"

definition json_dumps :: "(string \<times> json_value) list \<Rightarrow> string" where
  "json_dumps d =
     (if d = [] then ''{}''
      else ''{'' @ [CHR 0x0A]
           @ join ('','' @ [CHR 0x0A])
               (map (\<lambda>(k, v). ''  '' @ json_string k @ '': '' @ json_value_str v) d)
           @ [CHR 0x0A] @ ''}'')"

subsection \<open>The engine\<close>

record kapsis =
  project :: string
  agent_id :: string
  branch :: string
  sandbox_mode :: string
  status_dir :: path
  status_file :: path
  state_file :: path
  tool_counts :: counts
  initialized :: bool

definition PHASES :: "string list" where
  "PHASES = [''exploring'', ''implementing'', ''building'', ''testing'', ''committing'', ''completing'']"

definition DEFAULT_STATUS_DIR :: string where
  "DEFAULT_STATUS_DIR = ''/kapsis-status''"

text \<open>\<^verbatim>\<open>arg or fallback\<close> for an optional string: \<^verbatim>\<open>None\<close> and the empty string are
  both false.\<close>

definition py_or :: "string option \<Rightarrow> string \<Rightarrow> string" where
  "py_or arg fallback =
     (case arg of None \<Rightarrow> fallback | Some s \<Rightarrow> if s = [] then fallback else s)"

definition environ_get :: "(string \<rightharpoonup> string) \<Rightarrow> string \<Rightarrow> string \<Rightarrow> string" where
  "environ_get environ key dflt = (case environ key of None \<Rightarrow> dflt | Some v \<Rightarrow> v)"

definition init ::
  "(string \<rightharpoonup> string) \<Rightarrow> string option \<Rightarrow> string option \<Rightarrow> string option \<Rightarrow> string option
     \<Rightarrow> string option \<Rightarrow> kapsis" where
  "init environ project_arg agent_id_arg branch_arg sandbox_mode_arg status_dir_arg =
     (let p = py_or project_arg (environ_get environ ''KAPSIS_STATUS_PROJECT'' ''unknown'');
          a = py_or agent_id_arg (environ_get environ ''KAPSIS_STATUS_AGENT_ID'' ''0'');
          b = py_or branch_arg (environ_get environ ''KAPSIS_STATUS_BRANCH'' []);
          m = py_or sandbox_mode_arg (environ_get environ ''KAPSIS_SANDBOX_MODE'' ''overlay'');
          d = PurePath (py_or status_dir_arg
                 (environ_get environ ''KAPSIS_STATUS_DIR'' DEFAULT_STATUS_DIR))
      in \<lparr>project = p, agent_id = a, branch = b, sandbox_mode = m, status_dir = d,
          status_file = joinpath d (''kapsis-'' @ p @ ''-'' @ a @ ''.json''),
          state_file = joinpath d (''.state-'' @ p @ ''-'' @ a),
          tool_counts = \<lparr>explore = 0, implement = 0, build = 0, test = 0, commit = 0\<rparr>,
          initialized = False\<rparr>)"

text \<open>The two warnings of the publisher:
  \<^verbatim>\<open>f"Warning: Cannot create status directory {self.status_dir}: {e}"\<close> and
  \<^verbatim>\<open>f"Warning: Cannot write status file: {e}"\<close>.\<close>

definition mkdir_warning :: "path \<Rightarrow> exn \<Rightarrow> string" where
  "mkdir_warning d e =
     ''Warning: Cannot create status directory '' @ path_str d @ '': '' @ exn_str e"

definition write_warning :: "exn \<Rightarrow> string" where
  "write_warning e = ''Warning: Cannot write status file: '' @ exn_str e"

definition ensure_initialized :: "kapsis \<Rightarrow> world \<Rightarrow> exn option \<times> kapsis \<times> world" where
  "ensure_initialized self w =
     (if initialized self then (None, self, w)
      else (case mkdir (status_dir self) w of
              (None, w1) \<Rightarrow> (None, self\<lparr>initialized := True\<rparr>, w1)
            | (Some e, w1) \<Rightarrow>
                if caught e
                then (None, self, py_print (mkdir_warning (status_dir self) e) w1)
                else (Some e, self, w1)))"

definition status_data ::
  "kapsis \<Rightarrow> string \<Rightarrow> int \<Rightarrow> string \<Rightarrow> int option \<Rightarrow> string \<Rightarrow> (string \<times> json_value) list" where
  "status_data self phase progress message exit_code now =
     [(''phase'', JStr phase),
      (''progress'', JInt (max 0 (min 100 progress))),
      (''message'', JStr message),
      (''timestamp'', JStr (now @ ''Z'')),
      (''project'', JStr (project self)),
      (''agent_id'', JStr (agent_id self)),
      (''branch'', JStr (branch self)),
      (''sandbox_mode'', JStr (sandbox_mode self))]
     @ (case exit_code of None \<Rightarrow> [] | Some c \<Rightarrow> [(''exit_code'', JInt c)])"

text \<open>The body of the \<^verbatim>\<open>try\<close> block of \<^verbatim>\<open>_write_status\<close>: the first exception ends it.\<close>

definition write_atomically :: "kapsis \<Rightarrow> string \<Rightarrow> world \<Rightarrow> exn option \<times> world" where
  "write_atomically self text w =
     (case with_suffix (status_file self) ''.tmp'' of
        Inl e \<Rightarrow> (Some e, w)
      | Inr temp_file \<Rightarrow>
          (case write_text temp_file text w of
             (Some e, w1) \<Rightarrow> (Some e, w1)
           | (None, w1) \<Rightarrow> rename temp_file (status_file self) w1))"

definition write_status ::
  "kapsis \<Rightarrow> string \<Rightarrow> int \<Rightarrow> string \<Rightarrow> int option \<Rightarrow> world \<Rightarrow> (exn + bool) \<times> kapsis \<times> world" where
  "write_status self phase progress message exit_code w =
     (case ensure_initialized self w of
        (Some e, self1, w1) \<Rightarrow> (Inl e, self1, w1)
      | (None, self1, w1) \<Rightarrow>
          (let data = status_data self1 phase progress message exit_code (utcnow w1)
           in case write_atomically self1 (json_dumps data @ [CHR 0x0A]) w1 of
                (None, w2) \<Rightarrow> (Inr True, self1, w2)
              | (Some e, w2) \<Rightarrow>
                  if caught e
                  then (Inr False, self1, py_print (write_warning e) w2)
                  else (Inl e, self1, w2)))"

text \<open>The warning \<^verbatim>\<open>f"Warning: Unknown phase '{phase}', using 'implementing'"\<close>.\<close>

definition unknown_phase_warning :: "string \<Rightarrow> string" where
  "unknown_phase_warning phase =
     ''Warning: Unknown phase '' @ [CHR 0x27] @ phase @ [CHR 0x27]
     @ '', using '' @ [CHR 0x27] @ ''implementing'' @ [CHR 0x27]"

definition update ::
  "kapsis \<Rightarrow> string \<Rightarrow> int \<Rightarrow> string \<Rightarrow> world \<Rightarrow> (exn + bool) \<times> kapsis \<times> world" where
  "update self phase progress message w =
     (let (phase1, w1) =
            (if phase \<notin> set PHASES
             then (''implementing'', py_print (unknown_phase_warning phase) w)
             else (phase, w));
          progress1 = max 25 (min 90 progress)
      in write_status self phase1 progress1 message None w1)"

definition record_tool :: "kapsis \<Rightarrow> string \<Rightarrow> string \<Rightarrow> string \<Rightarrow> kapsis" where
  "record_tool self tool_name command file_path =
     (let category = map_tool_to_category tool_name command
      in if category \<in> fst ` set (items (tool_counts self))
         then self\<lparr>tool_counts := increment category (tool_counts self)\<rparr>
         else self)"

definition auto_update ::
  "kapsis \<Rightarrow> string \<Rightarrow> string \<Rightarrow> string \<Rightarrow> world \<Rightarrow> (exn + bool) \<times> kapsis \<times> world" where
  "auto_update self tool_name command file_path w =
     (let self1 = record_tool self tool_name command file_path;
          phase = determine_phase (tool_counts self1);
          progress = calculate_progress (tool_counts self1);
          message =
            (if file_path \<noteq> [] then ''Working on '' @ path_name (PurePath file_path)
             else if command \<noteq> [] then
               ''Running: '' @ (if length command > 50 then take 50 command @ ''...'' else command)
             else ''Using '' @ tool_name)
      in update self1 phase progress message w)"

definition complete ::
  "kapsis \<Rightarrow> string \<Rightarrow> int \<Rightarrow> world \<Rightarrow> (exn + bool) \<times> kapsis \<times> world" where
  "complete self message exit_code w =
     (let progress = (if exit_code = 0 then 95 else 50)
      in write_status self ''completing'' progress message (Some exit_code) w)"

definition fail ::
  "kapsis \<Rightarrow> string \<Rightarrow> int \<Rightarrow> world \<Rightarrow> (exn + bool) \<times> kapsis \<times> world" where
  "fail self message exit_code w =
     write_status self ''completing'' 50 message (Some (if exit_code \<noteq> 0 then exit_code else 1)) w"

text \<open>The calls with the default arguments of the source.\<close>

definition complete_default :: "kapsis \<Rightarrow> world \<Rightarrow> (exn + bool) \<times> kapsis \<times> world" where
  "complete_default self w = complete self ''Task completed'' 0 w"

definition fail_default :: "kapsis \<Rightarrow> world \<Rightarrow> (exn + bool) \<times> kapsis \<times> world" where
  "fail_default self w = fail self ''Task failed'' 1 w"

subsection \<open>Auxiliary notions for the properties\<close>





text \<open>The text that a publish writes: the serialised record and a newline.\<close>

definition document ::
  "kapsis \<Rightarrow> string \<Rightarrow> int \<Rightarrow> string \<Rightarrow> int option \<Rightarrow> string \<Rightarrow> string" where
  "document self phase progress message exit_code now =
     json_dumps (status_data self phase progress message exit_code now) @ [CHR 0x0A]"

text \<open>
  An engine whose status file is the one \<^verbatim>\<open>__init__\<close> computes from its identity; no
  method assigns either, so every engine in use satisfies it.
\<close>

definition constructed :: "kapsis \<Rightarrow> bool" where
  "constructed self \<longleftrightarrow>
     status_file self
       = joinpath (status_dir self) (''kapsis-'' @ project self @ ''-'' @ agent_id self @ ''.json'')"

text \<open>
  A world whose file-system faults are all of the \<open>OSError\<close> family (a directory that cannot
  be created, a file that cannot be written, a permission that is denied), and a world where
  the directory of every existing directory exists.
\<close>

definition fs_faults_only :: "world \<Rightarrow> bool" where
  "fs_faults_only w \<longleftrightarrow>
     (\<forall>p e. mkdir_fault w p = Some e \<longrightarrow> caught e)
     \<and> (\<forall>p e. write_fault w p = OpenFails e \<longrightarrow> caught e)
     \<and> (\<forall>p e k. write_fault w p = WriteFails e k \<longrightarrow> caught e)
     \<and> (\<forall>p q e. rename_fault w p q = Some e \<longrightarrow> caught e)"

definition dirs_closed :: "world \<Rightarrow> bool" where
  "dirs_closed w \<longleftrightarrow> (\<forall>p \<in> dirs w. path_parent p \<in> dirs w)"

text \<open>
  A concrete engine and concrete worlds, to run the operations on: the engine that
  \<^verbatim>\<open>KapsisStatus()\<close> builds in an empty environment; a world with no directory and no
  fault; and the same world where no directory can be created.
\<close>

definition demo_engine :: kapsis where
  "demo_engine = init Map.empty None None None None None"

definition demo_world :: world where
  "demo_world =
     \<lparr>dirs = {}, files = Map.empty, mkdir_fault = (\<lambda>p. None), write_fault = (\<lambda>p. WriteOk),
      rename_fault = (\<lambda>p q. None), utcnow = ''2025-01-01T00:00:00'', stdout = [],
      observed = []\<rparr>"


text \<open>The identity of an engine: what \<^verbatim>\<open>__init__\<close> resolves and every record carries.\<close>

definition identity :: "kapsis \<Rightarrow> string \<times> string \<times> string \<times> string \<times> path \<times> path" where
  "identity self =
     (project self, agent_id self, branch self, sandbox_mode self, status_dir self,
      status_file self)"

section \<open>Properties\<close>

subsection \<open>Tool classifier and phase\<close>

lemma contains_iff_sublist: "contains sub s \<longleftrightarrow> (\<exists>ps ss. s = ps @ sub @ ss)"
proof (induction s)
  case Nil
  then show ?case by auto
next
  case (Cons c cs)
  have "(\<exists>ps ss. c # cs = ps @ sub @ ss) \<longleftrightarrow> prefix sub (c # cs) \<or> (\<exists>ps ss. cs = ps @ sub @ ss)"
    using sublist_Cons_right[of sub c cs] by (simp add: sublist_def)
  with Cons show ?case by simp
qed

text \<open>
  C2: the phase derived from the counters follows the priority committing, testing,
  building, implementing, exploring: the first of commit, test, build, implement with a
  positive count decides, and exploring is left when none has one. For the counters
  test 1, build 1, implement 1 the phase is testing.
\<close>

theorem determine_phase_priority:
  "(0 < commit c \<longrightarrow> determine_phase c = ''committing'')
   \<and> (commit c = 0 \<and> 0 < test c \<longrightarrow> determine_phase c = ''testing'')
   \<and> (commit c = 0 \<and> test c = 0 \<and> 0 < build c \<longrightarrow> determine_phase c = ''building'')
   \<and> (commit c = 0 \<and> test c = 0 \<and> build c = 0 \<and> 0 < implement c
        \<longrightarrow> determine_phase c = ''implementing'')
   \<and> (commit c = 0 \<and> test c = 0 \<and> build c = 0 \<and> implement c = 0
        \<longrightarrow> determine_phase c = ''exploring'')
   \<and> determine_phase \<lparr>explore = 0, implement = 1, build = 1, test = 1, commit = 0\<rparr> = ''testing''"
  by (simp add: determine_phase_def)

theorem determine_phase_priority_witness:
  "0 < commit \<lparr>explore = 3, implement = 2, build = 0, test = 1, commit = 1\<rparr>
   \<and> determine_phase \<lparr>explore = 3, implement = 2, build = 0, test = 1, commit = 1\<rparr> = ''committing''
   \<and> commit \<lparr>explore = 3, implement = 2, build = 1, test = 0, commit = 0\<rparr> = 0
   \<and> test \<lparr>explore = 3, implement = 2, build = 1, test = 0, commit = 0\<rparr> = 0
   \<and> 0 < build \<lparr>explore = 3, implement = 2, build = 1, test = 0, commit = 0\<rparr>
   \<and> determine_phase \<lparr>explore = 3, implement = 2, build = 1, test = 0, commit = 0\<rparr> = ''building''"
  using determine_phase_priority[of "\<lparr>explore = 3, implement = 2, build = 0, test = 1, commit = 1\<rparr>"]
        determine_phase_priority[of "\<lparr>explore = 3, implement = 2, build = 1, test = 0, commit = 0\<rparr>"]
  by simp

lemma classify_npm_run_build: "map_tool_to_category ''Bash'' ''npm run build'' = ''build''"
  by code_simp

lemma classify_pytest: "map_tool_to_category ''Bash'' ''pytest -v'' = ''test''"
  by code_simp

lemma classify_git_commit: "map_tool_to_category ''Bash'' ''git commit -m x'' = ''commit''"
  by code_simp

lemma classify_echo: "map_tool_to_category ''Bash'' ''echo hi'' = ''implement''"
  by code_simp

lemma classify_Read: "map_tool_to_category ''Read'' [] = ''explore''"
  by code_simp

text \<open>
  C3: the classifier is a total function into the five categories. A tool name that
  lowercases to read, grep, glob, search or find is explore; one that lowercases to write,
  edit or notebookedit is implement; for bash the lowercased command decides, first match
  in the order build tokens, test tokens, "git commit", and implement otherwise; every
  other tool name is implement. So a bash command with both a build token and a test token
  is build, and the five examples of the specification hold.
\<close>

theorem map_tool_to_category_rules:
  "(str_lower tool_name \<in> {''read'', ''grep'', ''glob'', ''search'', ''find''}
      \<longrightarrow> map_tool_to_category tool_name command = ''explore'')
   \<and> (str_lower tool_name \<in> {''write'', ''edit'', ''notebookedit''}
      \<longrightarrow> map_tool_to_category tool_name command = ''implement'')
   \<and> (str_lower tool_name = ''bash'' \<longrightarrow>
        map_tool_to_category tool_name command =
          (if \<exists>b \<in> set build_tokens. contains b (str_lower command) then ''build''
           else if \<exists>t \<in> set test_tokens. contains t (str_lower command) then ''test''
           else if contains ''git commit'' (str_lower command) then ''commit''
           else ''implement''))
   \<and> (str_lower tool_name \<notin> {''read'', ''grep'', ''glob'', ''search'', ''find'', ''bash''}
      \<longrightarrow> map_tool_to_category tool_name command = ''implement'')
   \<and> (str_lower tool_name = ''bash''
       \<and> (\<exists>b \<in> set build_tokens. contains b (str_lower command))
       \<and> (\<exists>t \<in> set test_tokens. contains t (str_lower command))
      \<longrightarrow> map_tool_to_category tool_name command = ''build'')
   \<and> map_tool_to_category tool_name command
        \<in> {''explore'', ''implement'', ''build'', ''test'', ''commit''}
   \<and> map_tool_to_category ''Bash'' ''npm run build'' = ''build''
   \<and> map_tool_to_category ''Bash'' ''pytest -v'' = ''test''
   \<and> map_tool_to_category ''Bash'' ''git commit -m x'' = ''commit''
   \<and> map_tool_to_category ''Bash'' ''echo hi'' = ''implement''
   \<and> map_tool_to_category ''Read'' [] = ''explore''"
  by (simp add: classify_npm_run_build classify_pytest classify_git_commit classify_echo
        classify_Read)
     (auto simp: map_tool_to_category_def Let_def list_ex_iff)

theorem map_tool_to_category_rules_witness:
  "str_lower ''BASH'' = ''bash''
   \<and> (\<exists>b \<in> set build_tokens. contains b (str_lower ''Cargo Test --all''))
   \<and> (\<exists>t \<in> set test_tokens. contains t (str_lower ''Cargo Test --all''))
   \<and> map_tool_to_category ''BASH'' ''Cargo Test --all'' = ''build''
   \<and> str_lower ''Grep'' \<in> {''read'', ''grep'', ''glob'', ''search'', ''find''}
   \<and> map_tool_to_category ''Grep'' ''pytest'' = ''explore''
   \<and> str_lower ''WebFetch'' \<notin> {''read'', ''grep'', ''glob'', ''search'', ''find'', ''bash''}
   \<and> map_tool_to_category ''WebFetch'' ''make'' = ''implement''"
proof -
  have h1: "str_lower ''BASH'' = ''bash''"
    by code_simp
  have h2: "\<exists>b \<in> set build_tokens. contains b (str_lower ''Cargo Test --all'')"
    by code_simp
  have h3: "\<exists>t \<in> set test_tokens. contains t (str_lower ''Cargo Test --all'')"
    by code_simp
  have h4: "str_lower ''Grep'' \<in> {''read'', ''grep'', ''glob'', ''search'', ''find''}"
    by code_simp
  have h5: "str_lower ''WebFetch'' \<notin> {''read'', ''grep'', ''glob'', ''search'', ''find'', ''bash''}"
    by code_simp
  from map_tool_to_category_rules[of "''BASH''" "''Cargo Test --all''"] h1 h2 h3
  have r1: "map_tool_to_category ''BASH'' ''Cargo Test --all'' = ''build''"
    by blast
  from map_tool_to_category_rules[of "''Grep''" "''pytest''"] h4
  have r2: "map_tool_to_category ''Grep'' ''pytest'' = ''explore''"
    by blast
  from map_tool_to_category_rules[of "''WebFetch''" "''make''"] h5
  have r3: "map_tool_to_category ''WebFetch'' ''make'' = ''implement''"
    by blast
  from h1 h2 h3 h4 h5 r1 r2 r3 show ?thesis
    by blast
qed

subsection \<open>Rounding to the nearest double\<close>


lemma rhe_of_int [simp]: "round_half_even (of_int n) = n"
  by (simp add: round_half_even_def Let_def)

lemma rhe_numeral [simp]: "round_half_even (numeral n) = numeral n"
  using rhe_of_int[of "numeral n"] by simp




lemma two_powi_int: "0 \<le> k \<Longrightarrow> (2::rat) powi k = of_int (2 ^ nat k)"
  by (simp add: power_int_def)

lemma powi_shift: "a = k + int n \<Longrightarrow> (2::rat) powi a = 2 ^ n * 2 powi k"
  using power_int_add[of "2::rat" k "int n"] by (simp add: mult.commute)

lemma bitlen_rat_bounds:
  assumes "0 < p"
  shows "(2::rat) powi (bitlen p - 1) \<le> of_int p" "of_int p < (2::rat) powi bitlen p"
proof -
  from assms have b1: "1 \<le> bitlen p" by (auto simp: bitlen_alt_def)
  from bitlen_bounds[OF assms] have lo: "2 ^ nat (bitlen p - 1) \<le> p" and hi: "p < 2 ^ nat (bitlen p)"
    by simp_all
  from lo b1 show "(2::rat) powi (bitlen p - 1) \<le> of_int p"
    by (simp add: two_powi_int del: of_int_power)
  from hi b1 show "of_int p < (2::rat) powi bitlen p"
    by (simp add: two_powi_int del: of_int_power)
qed

lemma binade_bounds:
  assumes "0 < x"
  shows "2 powi binade x \<le> x" and "x < 2 powi (binade x + 1)"
proof -
  obtain p q where pq: "quotient_of x = (p, q)" by (cases "quotient_of x")
  then have q: "0 < q" and x: "x = of_int p / of_int q"
    by (simp_all add: quotient_of_denom_pos quotient_of_div)
  with assms have p: "0 < p" by (simp add: zero_less_divide_iff)
  define e0 where "e0 = bitlen p - bitlen q"
  have up: "x < 2 powi (e0 + 1)"
  proof -
    have "x < 2 powi bitlen p / of_int q"
      unfolding x using bitlen_rat_bounds(2)[OF p] q by (simp add: divide_strict_right_mono)
    also have "\<dots> \<le> 2 powi bitlen p / 2 powi (bitlen q - 1)"
      using bitlen_rat_bounds(1)[OF q] by (intro frac_le) (simp_all add: zero_less_power_int)
    also have "\<dots> = 2 powi (e0 + 1)"
      by (simp add: e0_def power_int_diff[symmetric] algebra_simps)
    finally show ?thesis .
  qed
  have lo: "2 powi (e0 - 1) \<le> x"
  proof -
    have "(2::rat) powi (e0 - 1) = 2 powi (bitlen p - 1) / 2 powi bitlen q"
      by (simp add: e0_def power_int_diff[symmetric] algebra_simps)
    also have "\<dots> \<le> of_int p / 2 powi bitlen q"
      using bitlen_rat_bounds(1)[OF p] by (simp add: divide_right_mono)
    also have "\<dots> \<le> of_int p / of_int q"
      using bitlen_rat_bounds(2)[OF q] p q by (intro frac_le) (simp_all add: zero_less_power_int)
    finally show ?thesis by (simp add: x)
  qed
  have b: "binade x = (if 2 powi e0 \<le> x then e0 else e0 - 1)"
    by (simp add: binade_def pq e0_def)
  show "2 powi binade x \<le> x" using lo by (simp add: b)
  show "x < 2 powi (binade x + 1)" using up by (auto simp: b)
qed

lemma binade_unique:
  assumes "2 powi e \<le> x" "x < 2 powi (e + 1)"
  shows "binade x = e"
proof -
  have x: "0 < x" using assms(1) zero_less_power_int[of "2::rat" e] by linarith
  have "(2::rat) powi e < 2 powi (binade x + 1)"
    using assms(1) binade_bounds(2)[OF x] by linarith
  then have 1: "e < binade x + 1"
    by (smt (verit) power_int_increasing one_le_numeral not_less)
  have "(2::rat) powi binade x < 2 powi (e + 1)"
    using assms(2) binade_bounds(1)[OF x] by linarith
  then have 2: "binade x < e + 1"
    by (smt (verit) power_int_increasing one_le_numeral not_less)
  from 1 2 show ?thesis by simp
qed


text \<open>rounding of a positive number, with the exponent made explicit\<close>
lemma rnd_pos:
  assumes "0 < x"
  shows "rnd x = of_int (round_half_even (x / 2 powi (binade x - 52))) * 2 powi (binade x - 52)"
  using assms by (simp add: rnd_def Let_def)

lemma rnd_eval:
  assumes "2 powi e \<le> x" "x < 2 powi (e + 1)"
  shows "rnd x = of_int (round_half_even (x / 2 powi (e - 52))) * 2 powi (e - 52)"
proof -
  have x: "0 < x" using assms(1) zero_less_power_int[of "2::rat" e] by linarith
  show ?thesis using rnd_pos[OF x] binade_unique[OF assms] by simp
qed





lemma rnd_exact:
  assumes "2 ^ 52 \<le> m" "m \<le> 2 ^ 53"
  shows "rnd (of_int m * 2 powi k) = of_int m * 2 powi k"
proof (cases "m = 2 ^ 53")
  case True
  have u: "(0::rat) < 2 powi (k + 1)" by (simp add: zero_less_power_int)
  have "(2::rat) powi (k + 53) = 2 ^ 53 * 2 powi k"
    by (rule powi_shift) simp
  then have v: "of_int m * (2::rat) powi k = 2 powi (k + 53)"
    using True by simp
  have w: "(2::rat) powi (k + 53) = 2 ^ 52 * 2 powi (k + 1)"
    by (rule powi_shift) simp
  have le: "(2::rat) powi (k + 53) \<le> 2 powi (k + 53)" by simp
  have lt: "(2::rat) powi (k + 53) < 2 powi (k + 53 + 1)"
    by (simp add: power_int_strict_increasing)
  have "rnd (2 powi (k + 53)) = of_int (round_half_even (2 powi (k + 53) / 2 powi (k + 53 - 52))) * 2 powi (k + 53 - 52)"
    by (rule rnd_eval[OF le lt])
  also have "(2::rat) powi (k + 53) / 2 powi (k + 53 - 52) = of_int (2 ^ 52)"
    using u w by (simp add: algebra_simps)
  finally show ?thesis unfolding v using w by (simp add: algebra_simps)
next
  case False
  with assms have m: "m < 2 ^ 53" by simp
  have u: "(0::rat) < 2 powi k" by (simp add: zero_less_power_int)
  have a: "(2::rat) powi (k + 52) = 2 ^ 52 * 2 powi k"
    by (rule powi_shift) simp
  have b: "(2::rat) powi (k + 52 + 1) = 2 ^ 53 * 2 powi k"
    by (rule powi_shift) simp
  have m1: "(2::rat) ^ 52 \<le> of_int m" using assms(1) by (metis of_int_le_iff of_int_numeral of_int_power)
  have m2: "of_int m < (2::rat) ^ 53" using m by (metis of_int_less_iff of_int_numeral of_int_power)
  have le: "(2::rat) powi (k + 52) \<le> of_int m * 2 powi k"
    unfolding a using m1 u by (simp add: mult_right_mono)
  have lt: "of_int m * 2 powi k < (2::rat) powi (k + 52 + 1)"
    unfolding b using m2 u by (simp add: mult_strict_right_mono)
  show ?thesis using rnd_eval[OF le lt] u by simp
qed


lemma rnd_1 [simp]: "rnd 1 = 1"
  using rnd_exact[of "2 ^ 52" "- 52"] by (simp add: power_int_minus)









subsection \<open>Progress estimator\<close>














subsection \<open>Distance of the estimate from the exact formula\<close>




































subsection \<open>Paths of the status file and its temporary file\<close>













subsection \<open>What a successful publish writes\<close>

lemma ensure_initialized_keeps:
  assumes "ensure_initialized self w = (r, self1, w1)"
  shows "project self1 = project self" "agent_id self1 = agent_id self"
    "branch self1 = branch self" "sandbox_mode self1 = sandbox_mode self"
    "status_dir self1 = status_dir self" "status_file self1 = status_file self"
    "state_file self1 = state_file self" "tool_counts self1 = tool_counts self"
    "files w1 = files w" "utcnow w1 = utcnow w" "observed w1 = observed w"
    "mkdir_fault w1 = mkdir_fault w" "write_fault w1 = write_fault w"
    "rename_fault w1 = rename_fault w"
  using assms
  by (auto simp: ensure_initialized_def mkdir_def py_print_def split: if_splits option.splits)

lemma status_data_cong:
  assumes "project s1 = project s" "agent_id s1 = agent_id s" "branch s1 = branch s"
    "sandbox_mode s1 = sandbox_mode s"
  shows "status_data s1 ph pr m ec now = status_data s ph pr m ec now"
  using assms by (simp add: status_data_def)

lemma write_text_ok:
  assumes "write_text p text w = (None, w1)"
  shows "files w1 = (files w)(p \<mapsto> text)"
    "observed w1 = (files w)(p \<mapsto> text) # (files w)(p \<mapsto> []) # observed w"
    "rename_fault w1 = rename_fault w" "stdout w1 = stdout w" "dirs w1 = dirs w"
    "path_parent p \<in> dirs w" "write_fault w p = WriteOk"
  using assms
  by (auto simp: write_text_def set_files_def Let_def split: if_splits write_outcome.splits)

lemma rename_ok:
  assumes "rename src dst w = (None, w1)"
  shows "\<exists>data. files w src = Some data \<and> files w1 = (files w)(src := None, dst \<mapsto> data)
           \<and> observed w1 = (files w)(src := None, dst \<mapsto> data) # observed w"
    "stdout w1 = stdout w" "rename_fault w src dst = None"
  using assms
  by (auto simp: rename_def set_files_def split: option.splits)

lemma write_atomically_ok:
  assumes "write_atomically self text w = (None, w1)"
  shows "files w1 (status_file self) = Some text"
proof -
  from assms obtain temp where t: "with_suffix (status_file self) ''.tmp'' = Inr temp"
    by (auto simp: write_atomically_def split: sum.splits)
  from assms t obtain wa where a: "write_text temp text w = (None, wa)"
    and r: "rename temp (status_file self) wa = (None, w1)"
    by (auto simp: write_atomically_def split: prod.splits option.splits)
  from rename_ok(1)[OF r] write_text_ok(1)[OF a] show ?thesis by auto
qed

lemma write_status_success:
  assumes "write_status self ph pr m ec w = (Inr True, self', w')"
  shows "files w' (status_file self)
           = Some (json_dumps (status_data self ph pr m ec (utcnow w)) @ [CHR 0x0A])"
proof -
  obtain r self1 w1 where e: "ensure_initialized self w = (r, self1, w1)"
    by (cases "ensure_initialized self w")
  note k = ensure_initialized_keeps[OF e]
  have d: "status_data self1 ph pr m ec (utcnow w1) = status_data self ph pr m ec (utcnow w)"
    using k by (simp add: status_data_def)
  from assms e have r: "r = None"
    by (auto simp: write_status_def split: option.splits)
  from assms e r d have
    "write_atomically self1 (json_dumps (status_data self ph pr m ec (utcnow w)) @ [CHR 0x0A]) w1
       = (None, w')"
    by (auto simp: write_status_def Let_def split: prod.splits option.splits if_splits)
  from write_atomically_ok[OF this] show ?thesis by (simp add: k)
qed

lemma clamp_running_range:
  "max 0 (min 100 (max 25 (min 90 (p::int)))) = max 25 (min 90 p)"
  "25 \<le> max 25 (min 90 (p::int))" "max 25 (min 90 (p::int)) \<le> 90"
  by auto

lemma status_data_fields:
  "map_of (status_data self ph pr m ec now) ''phase'' = Some (JStr ph)"
  "map_of (status_data self ph pr m ec now) ''progress'' = Some (JInt (max 0 (min 100 pr)))"
  "map_of (status_data self ph pr m ec now) ''message'' = Some (JStr m)"
  "map_of (status_data self ph pr m ec now) ''exit_code'' = map_option JInt ec"
  by (simp_all add: status_data_def split: option.splits)

lemma update_as_write_status:
  "update self phase progress message w =
     write_status self (if phase \<in> set PHASES then phase else ''implementing'')
       (max 25 (min 90 progress)) message None
       (if phase \<in> set PHASES then w
        else py_print (unknown_phase_warning phase) w)"
  by (simp add: update_def Let_def)

lemma utcnow_py_print [simp]: "utcnow (py_print line w) = utcnow w"
  by (simp add: py_print_def)

lemma update_success:
  assumes "update self phase progress message w = (Inr True, self', w')"
  shows "files w' (status_file self)
           = Some (json_dumps (status_data self (if phase \<in> set PHASES then phase else ''implementing'')
                     (max 25 (min 90 progress)) message None (utcnow w)) @ [CHR 0x0A])"
  using write_status_success[OF assms[unfolded update_as_write_status]]
  by (simp split: if_splits)

text \<open>
  C4: a successful \<open>update\<close> publishes, for every integer progress, phase and message, the
  record whose progress field is the input clamped to the range 25 to 90.
\<close>

theorem update_publishes_clamped_progress:
  assumes "update self phase progress message w = (Inr True, self', w')"
  shows "\<exists>d. files w' (status_file self) = Some (json_dumps d @ [CHR 0x0A])
           \<and> d = status_data self (if phase \<in> set PHASES then phase else ''implementing'')
                   (max 25 (min 90 progress)) message None (utcnow w)
           \<and> map_of d ''progress'' = Some (JInt (max 25 (min 90 progress)))
           \<and> 25 \<le> max 25 (min 90 progress) \<and> max 25 (min 90 progress) \<le> 90"
  using update_success[OF assms]
  by (simp add: status_data_fields clamp_running_range)

theorem update_publishes_clamped_progress_witness:
  "\<exists>self' w'. update demo_engine ''testing'' 300 ''Running unit tests'' demo_world = (Inr True, self', w')
     \<and> (\<exists>d. files w' (status_file demo_engine) = Some (json_dumps d @ [CHR 0x0A])
           \<and> map_of d ''progress'' = Some (JInt 90))"
proof -
  obtain r self' w' where
    u: "update demo_engine ''testing'' 300 ''Running unit tests'' demo_world = (r, self', w')"
    by (cases "update demo_engine ''testing'' 300 ''Running unit tests'' demo_world")
  have "fst (update demo_engine ''testing'' 300 ''Running unit tests'' demo_world) = Inr True"
    by code_simp
  with u have s: "update demo_engine ''testing'' 300 ''Running unit tests'' demo_world = (Inr True, self', w')"
    by simp
  from update_publishes_clamped_progress[OF s] s show ?thesis
    by auto
qed

subsection \<open>Failures of the file system\<close>














subsection \<open>The states a publish goes through\<close>

lemma py_print_fields [simp]:
  "files (py_print l w) = files w" "observed (py_print l w) = observed w"
  "dirs (py_print l w) = dirs w" "mkdir_fault (py_print l w) = mkdir_fault w"
  "write_fault (py_print l w) = write_fault w" "rename_fault (py_print l w) = rename_fault w"
  "stdout (py_print l w) = stdout w @ [l]"
  by (simp_all add: py_print_def)

lemma fs_faults_only_py_print [simp]: "fs_faults_only (py_print l w) = fs_faults_only w"
  by (simp add: fs_faults_only_def)

lemma dirs_closed_py_print [simp]: "dirs_closed (py_print l w) = dirs_closed w"
  by (simp add: dirs_closed_def)




lemma write_status_cases:
  obtains
    (raised_init) e self1 w1 where
      "ensure_initialized self w = (Some e, self1, w1)"
      "write_status self ph pr m ec w = (Inl e, self1, w1)"
  | (published) self1 w1 w2 where
      "ensure_initialized self w = (None, self1, w1)"
      "write_atomically self1 (document self ph pr m ec (utcnow w)) w1 = (None, w2)"
      "write_status self ph pr m ec w = (Inr True, self1, w2)"
  | (failed) self1 w1 e w2 where
      "ensure_initialized self w = (None, self1, w1)"
      "write_atomically self1 (document self ph pr m ec (utcnow w)) w1 = (Some e, w2)"
      "caught e"
      "write_status self ph pr m ec w = (Inr False, self1, py_print (write_warning e) w2)"
  | (raised) self1 w1 e w2 where
      "ensure_initialized self w = (None, self1, w1)"
      "write_atomically self1 (document self ph pr m ec (utcnow w)) w1 = (Some e, w2)"
      "\<not> caught e"
      "write_status self ph pr m ec w = (Inl e, self1, w2)"
proof -
  obtain r1 self1 w1 where e: "ensure_initialized self w = (r1, self1, w1)"
    by (cases "ensure_initialized self w")
  note k = ensure_initialized_keeps[OF e]
  have d: "json_dumps (status_data self1 ph pr m ec (utcnow w1)) @ [CHR 0x0A]
             = document self ph pr m ec (utcnow w)"
    unfolding document_def k(10) using status_data_cong[OF k(1) k(2) k(3) k(4)] by simp
  show thesis
  proof (cases r1)
    case (Some ex)
    with e have "write_status self ph pr m ec w = (Inl ex, self1, w1)"
      by (simp add: write_status_def)
    with e Some show thesis using raised_init by simp
  next
    case None
    obtain r2 w2 where a: "write_atomically self1 (document self ph pr m ec (utcnow w)) w1 = (r2, w2)"
      by (cases "write_atomically self1 (document self ph pr m ec (utcnow w)) w1")
    show thesis
    proof (cases r2)
      case None2: None
      with e None a d have "write_status self ph pr m ec w = (Inr True, self1, w2)"
        by (simp add: write_status_def Let_def)
      with e None a None2 show thesis using published by simp
    next
      case (Some ex)
      show thesis
      proof (cases "caught ex")
        case True
        with e None a d Some have
          "write_status self ph pr m ec w = (Inr False, self1, py_print (write_warning ex) w2)"
          by (simp add: write_status_def Let_def)
        with e None a Some True show thesis using failed by simp
      next
        case False
        with e None a d Some have "write_status self ph pr m ec w = (Inl ex, self1, w2)"
          by (simp add: write_status_def Let_def)
        with e None a Some False show thesis using raised by simp
      qed
    qed
  qed
qed



lemma write_status_published:
  assumes "write_status self ph pr m ec w = (Inr True, self', w')"
  shows "files w' (status_file self) = Some (document self ph pr m ec (utcnow w))"
  using write_status_success[OF assms] by (simp add: document_def)




lemma constructed_record_tool [simp]:
  "constructed (record_tool self tool_name command file_path) = constructed self"
  by (simp add: record_tool_def constructed_def Let_def)



subsection \<open>The published record\<close>



lemma demo_world_faults: "fs_faults_only demo_world" "dirs_closed demo_world"
  by (simp_all add: fs_faults_only_def dirs_closed_def demo_world_def)




lemma record_tool_identity [simp]:
  "status_file (record_tool self tool_name command file_path) = status_file self"
  "project (record_tool self tool_name command file_path) = project self"
  "agent_id (record_tool self tool_name command file_path) = agent_id self"
  "branch (record_tool self tool_name command file_path) = branch self"
  "sandbox_mode (record_tool self tool_name command file_path) = sandbox_mode self"
  "status_dir (record_tool self tool_name command file_path) = status_dir self"
  by (simp_all add: record_tool_def Let_def)

lemma complete_published:
  assumes "complete self message exit_code w = (Inr True, self', w')"
  shows "files w' (status_file self)
           = Some (document self ''completing'' (if exit_code = 0 then 95 else 50) message
                     (Some exit_code) (utcnow w))"
  using write_status_published[OF assms[unfolded complete_def Let_def]] .

lemma fail_published:
  assumes "fail self message exit_code w = (Inr True, self', w')"
  shows "files w' (status_file self)
           = Some (document self ''completing'' 50 message
                     (Some (if exit_code \<noteq> 0 then exit_code else 1)) (utcnow w))"
  using write_status_published[OF assms[unfolded fail_def]] .

lemma update_published:
  assumes "update self phase progress message w = (Inr True, self', w')"
  shows "files w' (status_file self)
           = Some (document self (if phase \<in> set PHASES then phase else ''implementing'')
                     (max 25 (min 90 progress)) message None (utcnow w))"
  using update_success[OF assms] by (simp add: document_def)

text \<open>
  C6: \<open>complete\<close> with exit code 0 publishes the record with phase completing, progress 95
  and exit_code 0; with any other exit code it publishes phase completing and progress 50;
  \<open>fail\<close> with its default arguments publishes phase completing, progress 50 and exit_code 1.
\<close>

theorem complete_and_fail_publish:
  "(\<forall>self' w'. complete self message 0 w = (Inr True, self', w') \<longrightarrow>
      files w' (status_file self)
        = Some (document self ''completing'' 95 message (Some 0) (utcnow w)))
   \<and> (\<forall>self' w'. exit_code \<noteq> 0 \<and> complete self message exit_code w = (Inr True, self', w') \<longrightarrow>
      files w' (status_file self)
        = Some (document self ''completing'' 50 message (Some exit_code) (utcnow w)))
   \<and> (\<forall>self' w'. fail_default self w = (Inr True, self', w') \<longrightarrow>
      files w' (status_file self)
        = Some (document self ''completing'' 50 ''Task failed'' (Some 1) (utcnow w)))
   \<and> map_of (status_data self ''completing'' 95 message (Some 0) now) ''phase''
        = Some (JStr ''completing'')
   \<and> map_of (status_data self ''completing'' 95 message (Some 0) now) ''progress''
        = Some (JInt 95)
   \<and> map_of (status_data self ''completing'' 95 message (Some 0) now) ''exit_code''
        = Some (JInt 0)
   \<and> map_of (status_data self ''completing'' 50 message (Some exit_code) now) ''phase''
        = Some (JStr ''completing'')
   \<and> map_of (status_data self ''completing'' 50 message (Some exit_code) now) ''progress''
        = Some (JInt 50)
   \<and> map_of (status_data self ''completing'' 50 ''Task failed'' (Some 1) now) ''exit_code''
        = Some (JInt 1)"
proof -
  have a: "\<forall>self' w'. complete self message 0 w = (Inr True, self', w') \<longrightarrow>
      files w' (status_file self)
        = Some (document self ''completing'' 95 message (Some 0) (utcnow w))"
    using complete_published[of self message 0 w] by simp
  have b: "\<forall>self' w'. exit_code \<noteq> 0 \<and> complete self message exit_code w = (Inr True, self', w') \<longrightarrow>
      files w' (status_file self)
        = Some (document self ''completing'' 50 message (Some exit_code) (utcnow w))"
    using complete_published[of self message exit_code w] by simp
  have c: "\<forall>self' w'. fail_default self w = (Inr True, self', w') \<longrightarrow>
      files w' (status_file self)
        = Some (document self ''completing'' 50 ''Task failed'' (Some 1) (utcnow w))"
    using fail_published[of self "''Task failed''" 1 w] by (simp add: fail_default_def)
  show ?thesis using a b c by (simp add: status_data_fields)
qed

theorem complete_and_fail_publish_witness:
  "fst (complete demo_engine ''All done'' 0 demo_world) = Inr True
   \<and> files (snd (snd (complete demo_engine ''All done'' 0 demo_world))) (status_file demo_engine)
       = Some (document demo_engine ''completing'' 95 ''All done'' (Some 0) (utcnow demo_world))
   \<and> (2::int) \<noteq> 0
   \<and> fst (complete demo_engine ''Tests red'' 2 demo_world) = Inr True
   \<and> files (snd (snd (complete demo_engine ''Tests red'' 2 demo_world))) (status_file demo_engine)
       = Some (document demo_engine ''completing'' 50 ''Tests red'' (Some 2) (utcnow demo_world))
   \<and> fst (fail_default demo_engine demo_world) = Inr True
   \<and> files (snd (snd (fail_default demo_engine demo_world))) (status_file demo_engine)
       = Some (document demo_engine ''completing'' 50 ''Task failed'' (Some 1) (utcnow demo_world))"
proof -
  have t1: "fst (complete demo_engine ''All done'' 0 demo_world) = Inr True" by code_simp
  have t2: "fst (complete demo_engine ''Tests red'' 2 demo_world) = Inr True" by code_simp
  have t3: "fst (fail_default demo_engine demo_world) = Inr True" by code_simp
  obtain s1 w1 where u1: "complete demo_engine ''All done'' 0 demo_world = (Inr True, s1, w1)"
    using t1 by (cases "complete demo_engine ''All done'' 0 demo_world") simp
  obtain s2 w2 where u2: "complete demo_engine ''Tests red'' 2 demo_world = (Inr True, s2, w2)"
    using t2 by (cases "complete demo_engine ''Tests red'' 2 demo_world") simp
  obtain s3 w3 where u3: "fail_default demo_engine demo_world = (Inr True, s3, w3)"
    using t3 by (cases "fail_default demo_engine demo_world") simp
  note th1 = complete_and_fail_publish[of demo_engine "''All done''" demo_world 2]
  note th2 = complete_and_fail_publish[of demo_engine "''Tests red''" demo_world 2]
  from th1 u1 have f1: "files w1 (status_file demo_engine)
       = Some (document demo_engine ''completing'' 95 ''All done'' (Some 0) (utcnow demo_world))"
    by blast
  from th2 u2 have f2: "files w2 (status_file demo_engine)
       = Some (document demo_engine ''completing'' 50 ''Tests red'' (Some 2) (utcnow demo_world))"
    by simp
  from th1 u3 have f3: "files w3 (status_file demo_engine)
       = Some (document demo_engine ''completing'' 50 ''Task failed'' (Some 1) (utcnow demo_world))"
    by blast
  show ?thesis using f1 f2 f3 by (simp add: u1 u2 u3)
qed

text \<open>
  C9: a record published through \<open>update\<close> or \<open>auto_update\<close> has no exit_code field,
  whatever the phase argument, also for completing; a record published by \<open>complete\<close>
  or \<open>fail\<close> has phase completing and an exit_code field. The field is present exactly
  when the publisher is given an exit code.
\<close>

theorem exit_code_only_on_terminal_records:
  "(\<forall>self' w'. update self phase progress message w = (Inr True, self', w') \<longrightarrow>
      (\<exists>d. files w' (status_file self) = Some (json_dumps d @ [CHR 0x0A])
          \<and> map_of d ''exit_code'' = None))
   \<and> (\<forall>self' w'. auto_update self tool_name command file_path w = (Inr True, self', w') \<longrightarrow>
      (\<exists>d. files w' (status_file self) = Some (json_dumps d @ [CHR 0x0A])
          \<and> map_of d ''exit_code'' = None))
   \<and> (\<forall>self' w'. complete self message exit_code w = (Inr True, self', w') \<longrightarrow>
      (\<exists>d. files w' (status_file self) = Some (json_dumps d @ [CHR 0x0A])
          \<and> map_of d ''exit_code'' = Some (JInt exit_code)
          \<and> map_of d ''phase'' = Some (JStr ''completing'')))
   \<and> (\<forall>self' w'. fail self message exit_code w = (Inr True, self', w') \<longrightarrow>
      (\<exists>d c. files w' (status_file self) = Some (json_dumps d @ [CHR 0x0A])
          \<and> map_of d ''exit_code'' = Some (JInt c) \<and> c \<noteq> 0
          \<and> map_of d ''phase'' = Some (JStr ''completing'')))
   \<and> (map_of (status_data self phase progress message ec now) ''exit_code'' = None
        \<longleftrightarrow> ec = None)"
proof -
  have a: "\<forall>self' w'. update self phase progress message w = (Inr True, self', w') \<longrightarrow>
      (\<exists>d. files w' (status_file self) = Some (json_dumps d @ [CHR 0x0A])
          \<and> map_of d ''exit_code'' = None)"
  proof (intro allI impI)
    fix self' w' assume "update self phase progress message w = (Inr True, self', w')"
    from update_published[OF this] show "\<exists>d. files w' (status_file self) = Some (json_dumps d @ [CHR 0x0A])
          \<and> map_of d ''exit_code'' = None"
      unfolding document_def using status_data_fields(4)[where ec = None] by fastforce
  qed
  have b: "\<forall>self' w'. auto_update self tool_name command file_path w = (Inr True, self', w') \<longrightarrow>
      (\<exists>d. files w' (status_file self) = Some (json_dumps d @ [CHR 0x0A])
          \<and> map_of d ''exit_code'' = None)"
  proof (intro allI impI)
    fix self' w' assume "auto_update self tool_name command file_path w = (Inr True, self', w')"
    then obtain ph pr m where
      "update (record_tool self tool_name command file_path) ph pr m w = (Inr True, self', w')"
      by (simp add: auto_update_def Let_def)
    from update_published[OF this] show "\<exists>d. files w' (status_file self) = Some (json_dumps d @ [CHR 0x0A])
          \<and> map_of d ''exit_code'' = None"
      unfolding document_def using status_data_fields(4)[where ec = None] by fastforce
  qed
  have c: "\<forall>self' w'. complete self message exit_code w = (Inr True, self', w') \<longrightarrow>
      (\<exists>d. files w' (status_file self) = Some (json_dumps d @ [CHR 0x0A])
          \<and> map_of d ''exit_code'' = Some (JInt exit_code)
          \<and> map_of d ''phase'' = Some (JStr ''completing''))"
  proof (intro allI impI)
    fix self' w' assume "complete self message exit_code w = (Inr True, self', w')"
    from complete_published[OF this] show "\<exists>d. files w' (status_file self) = Some (json_dumps d @ [CHR 0x0A])
          \<and> map_of d ''exit_code'' = Some (JInt exit_code)
          \<and> map_of d ''phase'' = Some (JStr ''completing'')"
      unfolding document_def
      by (intro exI[of _ "status_data self ''completing'' (if exit_code = 0 then 95 else 50) message
                     (Some exit_code) (utcnow w)"]) (simp add: status_data_fields)
  qed
  have d: "\<forall>self' w'. fail self message exit_code w = (Inr True, self', w') \<longrightarrow>
      (\<exists>d c. files w' (status_file self) = Some (json_dumps d @ [CHR 0x0A])
          \<and> map_of d ''exit_code'' = Some (JInt c) \<and> c \<noteq> 0
          \<and> map_of d ''phase'' = Some (JStr ''completing''))"
  proof (intro allI impI)
    fix self' w' assume "fail self message exit_code w = (Inr True, self', w')"
    from fail_published[OF this] show "\<exists>d c. files w' (status_file self) = Some (json_dumps d @ [CHR 0x0A])
          \<and> map_of d ''exit_code'' = Some (JInt c) \<and> c \<noteq> 0
          \<and> map_of d ''phase'' = Some (JStr ''completing'')"
      unfolding document_def
      by (intro exI[of _ "status_data self ''completing'' 50 message
                     (Some (if exit_code \<noteq> 0 then exit_code else 1)) (utcnow w)"]
                exI[of _ "if exit_code \<noteq> 0 then exit_code else 1"])
         (simp add: status_data_fields)
  qed
  have e: "map_of (status_data self phase progress message ec now) ''exit_code'' = None
        \<longleftrightarrow> ec = None"
    by (simp add: status_data_fields)
  from a b c d e show ?thesis by (intro conjI)
qed

theorem exit_code_only_on_terminal_records_witness:
  "fst (update demo_engine ''completing'' 95 ''Wrapping up'' demo_world) = Inr True
   \<and> (\<exists>d. files (snd (snd (update demo_engine ''completing'' 95 ''Wrapping up'' demo_world)))
             (status_file demo_engine) = Some (json_dumps d @ [CHR 0x0A])
          \<and> map_of d ''exit_code'' = None)
   \<and> fst (complete demo_engine ''Wrapping up'' 0 demo_world) = Inr True
   \<and> (\<exists>d. files (snd (snd (complete demo_engine ''Wrapping up'' 0 demo_world)))
             (status_file demo_engine) = Some (json_dumps d @ [CHR 0x0A])
          \<and> map_of d ''exit_code'' = Some (JInt 0)
          \<and> map_of d ''phase'' = Some (JStr ''completing''))"
proof -
  have t1: "fst (update demo_engine ''completing'' 95 ''Wrapping up'' demo_world) = Inr True"
    by code_simp
  have t2: "fst (complete demo_engine ''Wrapping up'' 0 demo_world) = Inr True"
    by code_simp
  obtain s1 w1 where
    u1: "update demo_engine ''completing'' 95 ''Wrapping up'' demo_world = (Inr True, s1, w1)"
    using t1 by (cases "update demo_engine ''completing'' 95 ''Wrapping up'' demo_world") simp
  obtain s2 w2 where
    u2: "complete demo_engine ''Wrapping up'' 0 demo_world = (Inr True, s2, w2)"
    using t2 by (cases "complete demo_engine ''Wrapping up'' 0 demo_world") simp
  note th = exit_code_only_on_terminal_records[where self = demo_engine
      and phase = "''completing''" and progress = 95 and message = "''Wrapping up''"
      and w = demo_world and exit_code = 0]
  have th1: "\<forall>self' w'. update demo_engine ''completing'' 95 ''Wrapping up'' demo_world
                  = (Inr True, self', w') \<longrightarrow>
      (\<exists>d. files w' (status_file demo_engine) = Some (json_dumps d @ [CHR 0x0A])
          \<and> map_of d ''exit_code'' = None)"
    using th by (rule conjunct1)
  from th1 u1 have f1: "\<exists>d. files w1 (status_file demo_engine) = Some (json_dumps d @ [CHR 0x0A])
          \<and> map_of d ''exit_code'' = None"
    by blast
  have th3: "\<forall>self' w'. complete demo_engine ''Wrapping up'' 0 demo_world = (Inr True, self', w') \<longrightarrow>
      (\<exists>d. files w' (status_file demo_engine) = Some (json_dumps d @ [CHR 0x0A])
          \<and> map_of d ''exit_code'' = Some (JInt 0)
          \<and> map_of d ''phase'' = Some (JStr ''completing''))"
    using th by (rule conjunct1[OF conjunct2[OF conjunct2]])
  with u2 have f2: "\<exists>d. files w2 (status_file demo_engine) = Some (json_dumps d @ [CHR 0x0A])
          \<and> map_of d ''exit_code'' = Some (JInt 0)
          \<and> map_of d ''phase'' = Some (JStr ''completing'')"
    by blast
  from f1 f2 show ?thesis by (simp add: u1 u2)
qed





subsection \<open>Identity of the engine\<close>

lemma write_status_identity:
  "identity (fst (snd (write_status self ph pr m ec w))) = identity self"
proof (cases rule: write_status_cases[of self w ph pr m ec])
  case (raised_init e self1 w1)
  note k = ensure_initialized_keeps[OF raised_init(1)]
  show ?thesis by (simp add: raised_init(2) identity_def k(1) k(2) k(3) k(4) k(5) k(6))
next
  case (published self1 w1 w2)
  note k = ensure_initialized_keeps[OF published(1)]
  show ?thesis by (simp add: published(3) identity_def k(1) k(2) k(3) k(4) k(5) k(6))
next
  case (failed self1 w1 e w2)
  note k = ensure_initialized_keeps[OF failed(1)]
  show ?thesis by (simp add: failed(4) identity_def k(1) k(2) k(3) k(4) k(5) k(6))
next
  case (raised self1 w1 e w2)
  note k = ensure_initialized_keeps[OF raised(1)]
  show ?thesis by (simp add: raised(4) identity_def k(1) k(2) k(3) k(4) k(5) k(6))
qed

lemma record_tool_keeps_identity:
  "identity (record_tool self tool_name command file_path) = identity self"
  by (simp add: identity_def)

lemma update_identity:
  "identity (fst (snd (update self phase progress message w))) = identity self"
  unfolding update_as_write_status by (rule write_status_identity)

lemma auto_update_identity:
  "identity (fst (snd (auto_update self tool_name command file_path w))) = identity self"
  by (simp add: auto_update_def Let_def update_identity record_tool_keeps_identity)

lemma complete_identity:
  "identity (fst (snd (complete self message exit_code w))) = identity self"
  by (simp add: complete_def Let_def write_status_identity)

lemma fail_identity:
  "identity (fst (snd (fail self message exit_code w))) = identity self"
  by (simp add: fail_def write_status_identity)

text \<open>
  C10, as the specification states it, fails for an argument that is supplied and empty: an
  engine built with the branch argument \<^verbatim>\<open>""\<close> in an environment that sets
  \<^verbatim>\<open>KAPSIS_STATUS_BRANCH=main\<close> has the branch main, not the empty one it was given.
\<close>

theorem init_empty_argument_counterexample:
  "branch (init (Map.empty(''KAPSIS_STATUS_BRANCH'' \<mapsto> ''main'')) None None (Some []) None None)
     = ''main''"
  by (simp add: init_def py_or_def environ_get_def Let_def)

text \<open>
  C10 (amended): every constructor argument that is supplied and not empty is used in
  preference to the environment; when an argument is absent or empty the value of the
  environment variable is used, and when that is not set the default: project unknown,
  agent id 0, branch empty, sandbox mode overlay, status directory /kapsis-status. No
  operation of the engine changes the identity so resolved.
\<close>

theorem init_resolves_identity:
  "(\<forall>s. s \<noteq> [] \<longrightarrow>
      project (init environ (Some s) agent_id_arg branch_arg sandbox_mode_arg status_dir_arg) = s
      \<and> agent_id (init environ project_arg (Some s) branch_arg sandbox_mode_arg status_dir_arg) = s
      \<and> branch (init environ project_arg agent_id_arg (Some s) sandbox_mode_arg status_dir_arg) = s
      \<and> sandbox_mode (init environ project_arg agent_id_arg branch_arg (Some s) status_dir_arg) = s
      \<and> status_dir (init environ project_arg agent_id_arg branch_arg sandbox_mode_arg (Some s))
          = PurePath s)
   \<and> (\<forall>a. a = None \<or> a = Some [] \<longrightarrow>
      project (init environ a agent_id_arg branch_arg sandbox_mode_arg status_dir_arg)
        = (case environ ''KAPSIS_STATUS_PROJECT'' of Some v \<Rightarrow> v | None \<Rightarrow> ''unknown'')
      \<and> agent_id (init environ project_arg a branch_arg sandbox_mode_arg status_dir_arg)
        = (case environ ''KAPSIS_STATUS_AGENT_ID'' of Some v \<Rightarrow> v | None \<Rightarrow> ''0'')
      \<and> branch (init environ project_arg agent_id_arg a sandbox_mode_arg status_dir_arg)
        = (case environ ''KAPSIS_STATUS_BRANCH'' of Some v \<Rightarrow> v | None \<Rightarrow> [])
      \<and> sandbox_mode (init environ project_arg agent_id_arg branch_arg a status_dir_arg)
        = (case environ ''KAPSIS_SANDBOX_MODE'' of Some v \<Rightarrow> v | None \<Rightarrow> ''overlay'')
      \<and> status_dir (init environ project_arg agent_id_arg branch_arg sandbox_mode_arg a)
        = PurePath (case environ ''KAPSIS_STATUS_DIR'' of Some v \<Rightarrow> v | None \<Rightarrow> ''/kapsis-status''))
   \<and> identity (record_tool self tool_name command file_path) = identity self
   \<and> identity (fst (snd (update self phase progress message w))) = identity self
   \<and> identity (fst (snd (auto_update self tool_name command file_path w))) = identity self
   \<and> identity (fst (snd (complete self message exit_code w))) = identity self
   \<and> identity (fst (snd (fail self message exit_code w))) = identity self"
proof -
  have a: "\<forall>s. s \<noteq> [] \<longrightarrow>
      project (init environ (Some s) agent_id_arg branch_arg sandbox_mode_arg status_dir_arg) = s
      \<and> agent_id (init environ project_arg (Some s) branch_arg sandbox_mode_arg status_dir_arg) = s
      \<and> branch (init environ project_arg agent_id_arg (Some s) sandbox_mode_arg status_dir_arg) = s
      \<and> sandbox_mode (init environ project_arg agent_id_arg branch_arg (Some s) status_dir_arg) = s
      \<and> status_dir (init environ project_arg agent_id_arg branch_arg sandbox_mode_arg (Some s))
          = PurePath s"
    by (simp add: init_def py_or_def Let_def)
  have b: "\<forall>a. a = None \<or> a = Some [] \<longrightarrow>
      project (init environ a agent_id_arg branch_arg sandbox_mode_arg status_dir_arg)
        = (case environ ''KAPSIS_STATUS_PROJECT'' of Some v \<Rightarrow> v | None \<Rightarrow> ''unknown'')
      \<and> agent_id (init environ project_arg a branch_arg sandbox_mode_arg status_dir_arg)
        = (case environ ''KAPSIS_STATUS_AGENT_ID'' of Some v \<Rightarrow> v | None \<Rightarrow> ''0'')
      \<and> branch (init environ project_arg agent_id_arg a sandbox_mode_arg status_dir_arg)
        = (case environ ''KAPSIS_STATUS_BRANCH'' of Some v \<Rightarrow> v | None \<Rightarrow> [])
      \<and> sandbox_mode (init environ project_arg agent_id_arg branch_arg a status_dir_arg)
        = (case environ ''KAPSIS_SANDBOX_MODE'' of Some v \<Rightarrow> v | None \<Rightarrow> ''overlay'')
      \<and> status_dir (init environ project_arg agent_id_arg branch_arg sandbox_mode_arg a)
        = PurePath (case environ ''KAPSIS_STATUS_DIR'' of Some v \<Rightarrow> v | None \<Rightarrow> ''/kapsis-status'')"
    by (auto simp: init_def py_or_def environ_get_def Let_def DEFAULT_STATUS_DIR_def
             split: option.splits)
  show ?thesis
    by (intro conjI, fact a, fact b, rule record_tool_keeps_identity, rule update_identity,
        rule auto_update_identity, rule complete_identity, rule fail_identity)
qed

theorem init_resolves_identity_witness:
  "''feature/login'' \<noteq> []
   \<and> branch (init (Map.empty(''KAPSIS_STATUS_BRANCH'' \<mapsto> ''main'')) None None
               (Some ''feature/login'') None None) = ''feature/login''
   \<and> project (init (Map.empty(''KAPSIS_STATUS_PROJECT'' \<mapsto> ''shop'')) None None None None None)
       = ''shop''
   \<and> project (init Map.empty (Some []) None None None None) = ''unknown''
   \<and> sandbox_mode (init Map.empty None None None None None) = ''overlay''"
proof -
  have h: "''feature/login'' \<noteq> []" by simp
  note t1 = init_resolves_identity[where environ = "Map.empty(''KAPSIS_STATUS_BRANCH'' \<mapsto> ''main'')"
      and project_arg = None and agent_id_arg = None and branch_arg = None
      and sandbox_mode_arg = None and status_dir_arg = None]
  note t2 = init_resolves_identity[where environ = "Map.empty(''KAPSIS_STATUS_PROJECT'' \<mapsto> ''shop'')"
      and project_arg = None and agent_id_arg = None and branch_arg = None
      and sandbox_mode_arg = None and status_dir_arg = None]
  note t3 = init_resolves_identity[where environ = "Map.empty"
      and project_arg = None and agent_id_arg = None and branch_arg = None
      and sandbox_mode_arg = None and status_dir_arg = None]
  from t1 h have r1: "branch (init (Map.empty(''KAPSIS_STATUS_BRANCH'' \<mapsto> ''main'')) None None
               (Some ''feature/login'') None None) = ''feature/login''"
    by blast
  from t2 have r2: "project (init (Map.empty(''KAPSIS_STATUS_PROJECT'' \<mapsto> ''shop'')) None None None None None)
       = ''shop''"
    by simp
  from t3 have r3: "project (init Map.empty (Some []) None None None None) = ''unknown''"
    by simp
  from t3 have r4: "sandbox_mode (init Map.empty None None None None None) = ''overlay''"
    by simp
  from h r1 r2 r3 r4 show ?thesis by (intro conjI)
qed

end
